theory Spec2Isabelle
  imports Complex_Main "HOL-Library.Stream"
begin

section \<open>The data module of the TTS recipes (zipvoice/dataset/datamodule.py)\<close>

text \<open>
  The module is argument-driven wiring: it declares command-line options, builds a dataset,
  a sampler and a loader per phase, and memoises the manifest accessors. The embedding
  records, for every object the module constructs, the keyword arguments the source passes
  to the constructor. A keyword the source does not pass is \<open>None\<close>; the library default
  that then applies is a separate, named definition.
\<close>

subsection \<open>Python values held by the option registry\<close>

text \<open>
  A path value is the list of its parts (see the manifest accessors below). The float carries its value as a real number: the module stores and forwards floats and
  does no arithmetic on them. An integer and a float of the same value are different
  objects (\<open>PyInt 200\<close> against \<open>PyFloat 200\<close>), as \<open>200\<close> and \<open>200.0\<close> are in Python.
\<close>

datatype pyval =
    PyInt int
  | PyFloat real
  | PyBool bool
  | PyStr string
  | PyPath "string list"

text \<open>The callables given as \<open>type=\<close> to \<open>add_argument\<close>.\<close>

datatype argtype = TPath | TInt | TStr2bool | TStr

record argument =
  arg_flag :: string
  arg_type :: argtype
  arg_default :: pyval

type_synonym argument_group = "argument list"

definition add_argument :: "argument_group \<Rightarrow> string \<Rightarrow> argtype \<Rightarrow> pyval \<Rightarrow> argument_group" where
  "add_argument grp flag ty dflt =
     grp @ [\<lparr>arg_flag = flag, arg_type = ty, arg_default = dflt\<rparr>]"

text \<open>
  \<open>TtsDataModule.add_arguments\<close>, in the order of the source (the help texts are left
  out). The default of \<open>--max-duration\<close> is written \<open>200.0\<close> in the source.
\<close>

definition add_arguments :: "argument_group \<Rightarrow> argument_group" where
  "add_arguments grp =
     (let grp = add_argument grp ''--manifest-dir'' TPath (PyPath [''data'', ''fbank'']);
          grp = add_argument grp ''--max-duration'' TInt (PyFloat 200.0);
          grp = add_argument grp ''--bucketing-sampler'' TStr2bool (PyBool True);
          grp = add_argument grp ''--num-buckets'' TInt (PyInt 30);
          grp = add_argument grp ''--on-the-fly-feats'' TStr2bool (PyBool False);
          grp = add_argument grp ''--shuffle'' TStr2bool (PyBool True);
          grp = add_argument grp ''--drop-last'' TStr2bool (PyBool True);
          grp = add_argument grp ''--return-cuts'' TStr2bool (PyBool False);
          grp = add_argument grp ''--num-workers'' TInt (PyInt 8);
          grp = add_argument grp ''--input-strategy'' TStr (PyStr ''PrecomputedFeatures'')
      in grp)"

text \<open>
  What argparse stores for an option that is absent from the command line: a default that
  is a string is passed through the option's \<open>type\<close> callable, any other default is
  stored as it is. The conversion of strings is the parameter \<open>conv\<close>.
\<close>

definition stored_default :: "(argtype \<Rightarrow> string \<Rightarrow> pyval) \<Rightarrow> argument \<Rightarrow> pyval" where
  "stored_default conv a =
     (case arg_default a of
        PyStr s \<Rightarrow> conv (arg_type a) s
      | v \<Rightarrow> v)"

text \<open>The attribute name of an option: the leading dashes dropped, inner dashes to underscores.\<close>

definition dest :: "string \<Rightarrow> string" where
  "dest flag = map (\<lambda>c. if c = CHR ''-'' then CHR ''_'' else c) (dropWhile (\<lambda>c. c = CHR ''-'') flag)"

definition parse_no_args :: "(argtype \<Rightarrow> string \<Rightarrow> pyval) \<Rightarrow> argument_group \<Rightarrow> (string \<times> pyval) list" where
  "parse_no_args conv grp = map (\<lambda>a. (dest (arg_flag a), stored_default conv a)) grp"

subsection \<open>The parsed configuration\<close>

record args =
  manifest_dir :: "string list"
  max_duration :: pyval
  bucketing_sampler :: bool
  num_buckets :: int
  on_the_fly_feats :: bool
  shuffle :: bool
  drop_last :: bool
  return_cuts :: bool
  num_workers :: int
  input_strategy :: string

subsection \<open>Worker seeding\<close>

text \<open>
  \<open>fix_random_seed\<close> is a library function; the model keeps the seed it was last called
  with in the worker's state.
\<close>

record worker_state =
  installed_seed :: "int option"

definition fix_random_seed :: "int \<Rightarrow> worker_state \<Rightarrow> worker_state" where
  "fix_random_seed random_seed w = w\<lparr>installed_seed := Some random_seed\<rparr>"

datatype seed_workers = SeedWorkers (seed: int)

definition seed_workers_call :: "seed_workers \<Rightarrow> int \<Rightarrow> worker_state \<Rightarrow> worker_state" where
  "seed_workers_call self worker_id w = fix_random_seed (seed self + worker_id) w"

text \<open>
  The ambient random generator is the stream of its future raw outputs. \<open>torch.randint\<close>
  is a library function, modelled by its documented contract: an integer from \<open>low\<close>
  (inclusive) to \<open>high\<close> (exclusive), for \<open>low < high\<close>; the generator advances.
\<close>

type_synonym generator = "nat stream"

definition torch_randint :: "int \<Rightarrow> int \<Rightarrow> generator \<Rightarrow> int \<times> generator" where
  "torch_randint low high g = (low + int (shd g mod nat (high - low)), stl g)"

subsection \<open>Datasets, samplers and loaders\<close>

datatype feature_extractor = VocosFbank

datatype input_strategies = OnTheFlyFeatures feature_extractor | PrecomputedFeatures

record speech_synthesis_dataset =
  ds_return_text :: bool
  ds_return_tokens :: bool
  ds_return_spk_ids :: bool
  ds_feature_input_strategy :: input_strategies
  ds_return_cuts :: bool
  ds_return_audio :: "bool option"

text \<open>
  Modelled from the spec: the constructor of \<open>SpeechSynthesisDataset\<close>
  (zipvoice/dataset/dataset.py) is not among the sources; raw audio samples are returned
  in the test phase only, so a dataset built without the \<open>return_audio\<close> keyword does
  not request them.
\<close>

definition requests_audio :: "speech_synthesis_dataset \<Rightarrow> bool" where
  "requests_audio d = (case ds_return_audio d of None \<Rightarrow> False | Some b \<Rightarrow> b)"

record dynamic_bucketing_kwargs =
  dbs_max_duration :: pyval
  dbs_shuffle :: bool
  dbs_num_buckets :: "int option"
  dbs_buffer_size :: "int option"
  dbs_shuffle_buffer_size :: "int option"
  dbs_drop_last :: "bool option"

record simple_cut_kwargs =
  scs_max_duration :: pyval
  scs_shuffle :: bool

datatype 'c sampler_ctor =
    DynamicBucketingSampler 'c dynamic_bucketing_kwargs
  | SimpleCutSampler 'c simple_cut_kwargs

record ('c, 'sd) cut_sampler =
  ctor :: "'c sampler_ctor"
  loaded_state :: "'sd option"

definition new_sampler :: "'c sampler_ctor \<Rightarrow> ('c, 'sd) cut_sampler" where
  "new_sampler c = \<lparr>ctor = c, loaded_state = None\<rparr>"

text \<open>
  \<open>load_state_dict\<close> is a method of the library's samplers; the model records the state
  handed to it.
\<close>

definition load_state_dict :: "'sd \<Rightarrow> ('c, 'sd) cut_sampler \<Rightarrow> ('c, 'sd) cut_sampler" where
  "load_state_dict sd s = s\<lparr>loaded_state := Some sd\<rparr>"

text \<open>
  Modelled from the spec: the samplers are library classes; a sampler built without the
  \<open>drop_last\<close> keyword has drop-last off. A sampler takes both settings from a state
  loaded into it, and the model does not look into a state: for a sampler with a loaded
  state the answer is \<open>None\<close>.
\<close>

definition sampler_drops_last :: "('c, 'sd) cut_sampler \<Rightarrow> bool option" where
  "sampler_drops_last s =
     (case loaded_state s of
        Some st \<Rightarrow> None
      | None \<Rightarrow>
          (case ctor s of
             DynamicBucketingSampler cuts kw \<Rightarrow>
               (case dbs_drop_last kw of None \<Rightarrow> Some False | Some b \<Rightarrow> Some b)
           | SimpleCutSampler cuts kw \<Rightarrow> Some False))"

definition sampler_shuffles :: "('c, 'sd) cut_sampler \<Rightarrow> bool option" where
  "sampler_shuffles s =
     (case loaded_state s of
        Some st \<Rightarrow> None
      | None \<Rightarrow>
          (case ctor s of
             DynamicBucketingSampler cuts kw \<Rightarrow> Some (dbs_shuffle kw)
           | SimpleCutSampler cuts kw \<Rightarrow> Some (scs_shuffle kw)))"

record ('c, 'sd) data_loader =
  dl_dataset :: speech_synthesis_dataset
  dl_sampler :: "('c, 'sd) cut_sampler"
  dl_batch_size :: "int option"
  dl_num_workers :: int
  dl_persistent_workers :: "bool option"
  dl_worker_init_fn :: "seed_workers option"

text \<open>
  Modelled from the spec: the loader is a library class; persistent workers are disabled
  in every phase, so a loader built without the \<open>persistent_workers\<close> keyword has them
  off.
\<close>

definition persistent_workers :: "('c, 'sd) data_loader \<Rightarrow> bool" where
  "persistent_workers dl = (case dl_persistent_workers dl of None \<Rightarrow> False | Some b \<Rightarrow> b)"

definition feature_input_strategy :: "args \<Rightarrow> input_strategies" where
  "feature_input_strategy a =
     (if on_the_fly_feats a then OnTheFlyFeatures VocosFbank else PrecomputedFeatures)"

definition train_dataloaders ::
  "args \<Rightarrow> 'c \<Rightarrow> 'sd option \<Rightarrow> generator \<Rightarrow> ('c, 'sd) data_loader \<times> generator" where
  "train_dataloaders a cuts_train sampler_state_dict g =
     (let train = \<lparr>ds_return_text = True, ds_return_tokens = True, ds_return_spk_ids = True,
                   ds_feature_input_strategy = feature_input_strategy a,
                   ds_return_cuts = return_cuts a, ds_return_audio = None\<rparr>;
          train_sampler =
            (if bucketing_sampler a then
               new_sampler (DynamicBucketingSampler cuts_train
                 \<lparr>dbs_max_duration = max_duration a,
                  dbs_shuffle = shuffle a,
                  dbs_num_buckets = Some (num_buckets a),
                  dbs_buffer_size = Some (num_buckets a * 2000),
                  dbs_shuffle_buffer_size = Some (num_buckets a * 5000),
                  dbs_drop_last = Some (drop_last a)\<rparr>)
             else
               new_sampler (SimpleCutSampler cuts_train
                 \<lparr>scs_max_duration = max_duration a,
                  scs_shuffle = shuffle a\<rparr>));
          train_sampler =
            (case sampler_state_dict of
               None \<Rightarrow> train_sampler
             | Some sd \<Rightarrow> load_state_dict sd train_sampler);
          (seed, g') = torch_randint 0 100000 g;
          worker_init_fn = SeedWorkers seed;
          train_dl = \<lparr>dl_dataset = train, dl_sampler = train_sampler, dl_batch_size = None,
                      dl_num_workers = num_workers a, dl_persistent_workers = Some False,
                      dl_worker_init_fn = Some worker_init_fn\<rparr>
      in (train_dl, g'))"

definition dev_dataloaders :: "args \<Rightarrow> 'c \<Rightarrow> ('c, 'sd) data_loader" where
  "dev_dataloaders a cuts_valid =
     (let validate = \<lparr>ds_return_text = True, ds_return_tokens = True, ds_return_spk_ids = True,
                      ds_feature_input_strategy = feature_input_strategy a,
                      ds_return_cuts = return_cuts a, ds_return_audio = None\<rparr>;
          dev_sampler = new_sampler (DynamicBucketingSampler cuts_valid
                 \<lparr>dbs_max_duration = max_duration a,
                  dbs_shuffle = False,
                  dbs_num_buckets = None,
                  dbs_buffer_size = None,
                  dbs_shuffle_buffer_size = None,
                  dbs_drop_last = None\<rparr>);
          dev_dl = \<lparr>dl_dataset = validate, dl_sampler = dev_sampler, dl_batch_size = None,
                    dl_num_workers = 2, dl_persistent_workers = Some False,
                    dl_worker_init_fn = None\<rparr>
      in dev_dl)"

definition test_dataloaders :: "args \<Rightarrow> 'c \<Rightarrow> ('c, 'sd) data_loader" where
  "test_dataloaders a cuts =
     (let test = \<lparr>ds_return_text = True, ds_return_tokens = True, ds_return_spk_ids = True,
                  ds_feature_input_strategy = feature_input_strategy a,
                  ds_return_cuts = return_cuts a, ds_return_audio = Some True\<rparr>;
          test_sampler = new_sampler (DynamicBucketingSampler cuts
                 \<lparr>dbs_max_duration = max_duration a,
                  dbs_shuffle = False,
                  dbs_num_buckets = None,
                  dbs_buffer_size = None,
                  dbs_shuffle_buffer_size = None,
                  dbs_drop_last = None\<rparr>);
          test_dl = \<lparr>dl_dataset = test, dl_sampler = test_sampler, dl_batch_size = None,
                     dl_num_workers = num_workers a, dl_persistent_workers = None,
                     dl_worker_init_fn = None\<rparr>
      in test_dl)"

text \<open>The seed a worker of a loader ends up with: the loader's \<open>worker_init_fn\<close>, if any, runs at startup.\<close>

definition start_worker :: "('c, 'sd) data_loader \<Rightarrow> int \<Rightarrow> worker_state \<Rightarrow> worker_state" where
  "start_worker dl worker_id w =
     (case dl_worker_init_fn dl of
        None \<Rightarrow> w
      | Some f \<Rightarrow> seed_workers_call f worker_id w)"

definition base_seed :: "generator \<Rightarrow> int" where
  "base_seed g = fst (torch_randint 0 100000 g)"

subsection \<open>Manifest accessors\<close>

text \<open>
  A manifest is named by a str or by a pathlib Path. A Path is held as the list of its
  parts, which is what pathlib compares: separators are collapsed and \<open>.\<close> components
  dropped, so \<open>Path('.')\<close> has no part. A str and a Path never compare equal.
\<close>

datatype pathlike = PathStr string | PathObj "string list"

text \<open>
  What an accessor returns: the \<open>None\<close> object, or a cut collection with its own
  identity and the manifest it reads. All \<open>None\<close>s are one object. The identity of a
  collection is the object itself, numbered in the order of creation (what \<open>is\<close>
  compares), not its address, which the interpreter may give to a later object once an
  earlier one is freed.
\<close>

datatype pyobj = PyNone | CutSet nat pathlike

fun ident :: "pyobj \<Rightarrow> nat option" where
  "ident PyNone = None"
| "ident (CutSet i m) = Some i"

datatype error = LoadError

text \<open>
  An instance of the data module: its identity and the configuration it holds at the time
  of a call.
\<close>

record tts_data_module =
  self_id :: nat
  self_args :: args

text \<open>
  A call of an accessor through an instance. The two accessors with a parameter take it
  positionally or by its name \<open>manifest_file\<close>.
\<close>

datatype arg_form = Positional | Keyword

datatype call =
    train_custom_cuts arg_form pathlike
  | dev_custom_cuts arg_form pathlike
  | train_emilia_EN_cuts
  | train_emilia_ZH_cuts
  | dev_emilia_EN_cuts
  | dev_emilia_ZH_cuts
  | train_libritts_cuts
  | dev_libritts_cuts
  | train_opendialog_en_cuts
  | train_opendialog_zh_cuts
  | dev_opendialog_en_cuts
  | dev_opendialog_zh_cuts

fun qualname :: "call \<Rightarrow> string" where
  "qualname (train_custom_cuts form manifest_file) = ''train_custom_cuts''"
| "qualname (dev_custom_cuts form manifest_file) = ''dev_custom_cuts''"
| "qualname train_emilia_EN_cuts = ''train_emilia_EN_cuts''"
| "qualname train_emilia_ZH_cuts = ''train_emilia_ZH_cuts''"
| "qualname dev_emilia_EN_cuts = ''dev_emilia_EN_cuts''"
| "qualname dev_emilia_ZH_cuts = ''dev_emilia_ZH_cuts''"
| "qualname train_libritts_cuts = ''train_libritts_cuts''"
| "qualname dev_libritts_cuts = ''dev_libritts_cuts''"
| "qualname train_opendialog_en_cuts = ''train_opendialog_en_cuts''"
| "qualname train_opendialog_zh_cuts = ''train_opendialog_zh_cuts''"
| "qualname dev_opendialog_en_cuts = ''dev_opendialog_en_cuts''"
| "qualname dev_opendialog_zh_cuts = ''dev_opendialog_zh_cuts''"

text \<open>The arguments of a call after \<open>self\<close>: the positional ones, then the keyword ones.\<close>

fun call_args :: "call \<Rightarrow> pathlike list \<times> (string \<times> pathlike) list" where
  "call_args (train_custom_cuts Positional manifest_file) = ([manifest_file], [])"
| "call_args (train_custom_cuts Keyword manifest_file) = ([], [(''manifest_file'', manifest_file)])"
| "call_args (dev_custom_cuts Positional manifest_file) = ([manifest_file], [])"
| "call_args (dev_custom_cuts Keyword manifest_file) = ([], [(''manifest_file'', manifest_file)])"
| "call_args c = ([], [])"

text \<open>\<open>d / f\<close> for a Path \<open>d\<close> and a file name \<open>f\<close> without separators.\<close>

definition path_join :: "string list \<Rightarrow> string \<Rightarrow> string list" where
  "path_join d f = d @ [f]"

text \<open>The manifest that the body of an accessor hands to \<open>load_manifest_lazy\<close>.\<close>

fun manifest :: "args \<Rightarrow> call \<Rightarrow> pathlike" where
  "manifest a (train_custom_cuts form manifest_file) = manifest_file"
| "manifest a (dev_custom_cuts form manifest_file) = manifest_file"
| "manifest a train_emilia_EN_cuts = PathObj (path_join (manifest_dir a) ''emilia_cuts_EN.jsonl.gz'')"
| "manifest a train_emilia_ZH_cuts = PathObj (path_join (manifest_dir a) ''emilia_cuts_ZH.jsonl.gz'')"
| "manifest a dev_emilia_EN_cuts = PathObj (path_join (manifest_dir a) ''emilia_cuts_EN-dev.jsonl.gz'')"
| "manifest a dev_emilia_ZH_cuts = PathObj (path_join (manifest_dir a) ''emilia_cuts_ZH-dev.jsonl.gz'')"
| "manifest a train_libritts_cuts = PathObj (path_join (manifest_dir a) ''libritts_cuts_train-all-shuf.jsonl.gz'')"
| "manifest a dev_libritts_cuts = PathObj (path_join (manifest_dir a) ''libritts_cuts_dev-clean.jsonl.gz'')"
| "manifest a train_opendialog_en_cuts = PathObj (path_join (manifest_dir a) ''opendialog_cuts_EN-train.jsonl.gz'')"
| "manifest a train_opendialog_zh_cuts = PathObj (path_join (manifest_dir a) ''opendialog_cuts_ZH-train.jsonl.gz'')"
| "manifest a dev_opendialog_en_cuts = PathObj (path_join (manifest_dir a) ''opendialog_cuts_EN-dev.jsonl.gz'')"
| "manifest a dev_opendialog_zh_cuts = PathObj (path_join (manifest_dir a) ''opendialog_cuts_ZH-dev.jsonl.gz'')"

text \<open>
  The key of a cache entry: the identity of \<open>self\<close>, the positional arguments and the
  keyword arguments, so a positional and a keyword call of one argument have different
  keys, and so have a str and a Path of one file.
\<close>

type_synonym cache_key = "nat \<times> pathlike list \<times> (string \<times> pathlike) list"

type_synonym lru = "(cache_key \<times> pyobj) list"

text \<open>
  The process state: the number of cut collections created so far, which is the identity
  of the next one; every manifest \<open>load_manifest_lazy\<close> was called on, oldest first; and
  the cache of every decorated accessor, by the accessor's name.
\<close>

record process =
  next_id :: nat
  loaded :: "pathlike list"
  caches :: "string \<Rightarrow> lru"

definition start :: process where
  "start = \<lparr>next_id = 0, loaded = [], caches = (\<lambda>f. [])\<rparr>"

text \<open>
  \<open>load_manifest_lazy\<close> is a library function. It opens the manifest at the call: it
  raises when the file is missing or its name has no \<open>.jsonl\<close>, returns \<open>None\<close> for an
  empty manifest, and returns a new collection otherwise. Which of the three happens is
  given by the disk, a parameter that may answer differently from one call of
  \<open>load_manifest_lazy\<close> to the next (its first argument counts the calls made before).
\<close>

datatype outcome = Raises | Empty | Manifest

type_synonym disk = "nat \<Rightarrow> pathlike \<Rightarrow> outcome"

definition load_manifest_lazy :: "disk \<Rightarrow> pathlike \<Rightarrow> process \<Rightarrow> (error + pyobj) \<times> process" where
  "load_manifest_lazy d path p =
     (case d (length (loaded p)) path of
        Raises \<Rightarrow> (Inl LoadError, p\<lparr>loaded := loaded p @ [path]\<rparr>)
      | Empty \<Rightarrow> (Inr PyNone, p\<lparr>loaded := loaded p @ [path]\<rparr>)
      | Manifest \<Rightarrow>
          (Inr (CutSet (next_id p) path),
           p\<lparr>next_id := Suc (next_id p), loaded := loaded p @ [path]\<rparr>))"

text \<open>
  \<open>lru_cache()\<close> is a library decorator, used with its default size of 128 entries. The
  cache of a decorated method is shared by all instances. The entries are kept most
  recently used first. A hit moves the entry to the front; a miss runs the body and, if
  the body returns, stores the result (\<open>None\<close> too) at the front, dropping the least
  recently used entry of a full cache. An exception of the body leaves the cache as it
  was.
\<close>

definition maxsize :: nat where
  "maxsize = 128"

definition key_of :: "tts_data_module \<Rightarrow> call \<Rightarrow> cache_key" where
  "key_of self c = (self_id self, call_args c)"

definition cached_call ::
  "disk \<Rightarrow> tts_data_module \<Rightarrow> call \<Rightarrow> process \<Rightarrow> (error + pyobj) \<times> process" where
  "cached_call d self c p =
     (let key = key_of self c; cache = caches p (qualname c) in
      case map_of cache key of
        Some result \<Rightarrow>
          (Inr result,
           p\<lparr>caches := (caches p)(qualname c := (key, result) # filter (\<lambda>e. fst e \<noteq> key) cache)\<rparr>)
      | None \<Rightarrow>
          (case load_manifest_lazy d (manifest (self_args self) c) p of
             (Inl e, p') \<Rightarrow> (Inl e, p')
           | (Inr result, p') \<Rightarrow>
               (let kept = (if length cache \<ge> maxsize then butlast cache else cache)
                in (Inr result, p'\<lparr>caches := (caches p')(qualname c := (key, result) # kept)\<rparr>))))"

text \<open>
  A sequence of accessor calls in one process, an exception caught by the caller: the
  outcomes in order, and the final state.
\<close>

fun run ::
  "disk \<Rightarrow> (tts_data_module \<times> call) list \<Rightarrow> process \<Rightarrow> (error + pyobj) list \<times> process" where
  "run d [] p = ([], p)"
| "run d ((self, c) # rest) p =
     (let (result, p') = cached_call d self c p;
          (results, p'') = run d rest p'
      in (result # results, p''))"


text \<open>The configuration that an empty command line gives.\<close>

definition default_args :: args where
  "default_args =
     \<lparr>manifest_dir = [''data'', ''fbank''], max_duration = PyFloat 200.0, bucketing_sampler = True,
      num_buckets = 30, on_the_fly_feats = False, shuffle = True, drop_last = True,
      return_cuts = False, num_workers = 8, input_strategy = ''PrecomputedFeatures''\<rparr>"

subsection \<open>Notions used in the proofs about the accessor caches\<close>



text \<open>
  Every cached collection was created earlier, and no collection is cached under two
  different keys or by two different accessors.
\<close>

definition ids_fresh :: "process \<Rightarrow> bool" where
  "ids_fresh p \<longleftrightarrow>
     (\<forall>f k i m. (k, CutSet i m) \<in> set (caches p f) \<longrightarrow> i < next_id p) \<and>
     (\<forall>f k i m f' k' m'. (k, CutSet i m) \<in> set (caches p f) \<longrightarrow>
        (k', CutSet i m') \<in> set (caches p f') \<longrightarrow> f = f' \<and> k = k')"

text \<open>
  The collection \<open>i\<close> exists and is cached nowhere but under the key \<open>k\<close> of the
  accessor \<open>f\<close>.
\<close>

definition owned :: "string \<Rightarrow> cache_key \<Rightarrow> nat \<Rightarrow> process \<Rightarrow> bool" where
  "owned f k i p \<longleftrightarrow>
     i < next_id p \<and>
     (\<forall>f' k' m'. (k', CutSet i m') \<in> set (caches p f') \<longrightarrow> f' = f \<and> k' = k)"

subsection \<open>Concrete scenarios\<close>

text \<open>Three disks: every manifest has cuts; every manifest is empty; the first call of
  \<open>load_manifest_lazy\<close> fails and the later ones find cuts.\<close>

definition all_present :: disk where
  "all_present = (\<lambda>t m. Manifest)"

definition all_empty :: disk where
  "all_empty = (\<lambda>t m. Empty)"

definition appears_later :: disk where
  "appears_later = (\<lambda>t m. if t = 0 then Raises else Manifest)"

text \<open>
  One data module, and the calls by which it asks \<open>train_custom_cuts\<close> for 128 manifests
  \<open>x\<close>, \<open>xx\<close>, \<open>xxx\<close>, and so on.
\<close>

definition example_module :: tts_data_module where
  "example_module = \<lparr>self_id = 0, self_args = default_args\<rparr>"



section \<open>Properties\<close>

lemma train_dataloaders_worker_init_fn:
  "dl_worker_init_fn (fst (train_dataloaders a cuts sd g)) = Some (SeedWorkers (base_seed g))"
  by (simp add: train_dataloaders_def base_seed_def Let_def split: prod.splits)

text \<open>
  Claim C1. A worker with id \<open>W\<close> of a training loader whose construction drew the base
  seed \<open>S\<close> has the seed \<open>S + W\<close> installed; two constructions that draw the same base
  seed install the same seed in every worker, whatever else differs between them.
\<close>

theorem worker_seed_is_base_plus_id:
  "installed_seed (start_worker (fst (train_dataloaders a cuts sd g)) W w) = Some (base_seed g + W)
   \<and> (base_seed g = base_seed g2 \<longrightarrow>
        installed_seed (start_worker (fst (train_dataloaders a cuts sd g)) W w)
        = installed_seed (start_worker (fst (train_dataloaders a2 cuts2 sd2 g2)) W w2))"
  by (simp add: start_worker_def train_dataloaders_worker_init_fn seed_workers_call_def
      fix_random_seed_def)


theorem worker_seed_is_base_plus_id_witness:
  "installed_seed (start_worker (fst (train_dataloaders default_args (0::nat) (None :: unit option) (sconst 7))) 3
      \<lparr>installed_seed = None\<rparr>) = Some 10
   \<and> base_seed (sconst 7) = base_seed (sconst 100007)
   \<and> installed_seed (start_worker (fst (train_dataloaders default_args (0::nat) (None :: unit option) (sconst 7))) 3
        \<lparr>installed_seed = None\<rparr>)
     = installed_seed (start_worker
         (fst (train_dataloaders (default_args\<lparr>bucketing_sampler := False\<rparr>) (1::nat) (Some ()) (sconst 100007))) 3
         \<lparr>installed_seed = Some 99\<rparr>)"
proof -
  have same: "base_seed (sconst 7) = base_seed (sconst 100007)"
    by (simp add: base_seed_def torch_randint_def)
  have seven: "base_seed (sconst 7) = 7"
    by (simp add: base_seed_def torch_randint_def)
  note inst = worker_seed_is_base_plus_id [of default_args "0::nat" "None :: unit option" "sconst 7" 3
        "\<lparr>installed_seed = None\<rparr>" "sconst 100007" "default_args\<lparr>bucketing_sampler := False\<rparr>"
        "1::nat" "Some ()" "\<lparr>installed_seed = Some 99\<rparr>"]
  from inst have first: "installed_seed (start_worker
        (fst (train_dataloaders default_args (0::nat) (None :: unit option) (sconst 7))) 3
        \<lparr>installed_seed = None\<rparr>) = Some (base_seed (sconst 7) + 3)"
    by (rule conjunct1)
  from inst same have second: "installed_seed (start_worker
        (fst (train_dataloaders default_args (0::nat) (None :: unit option) (sconst 7))) 3
        \<lparr>installed_seed = None\<rparr>)
     = installed_seed (start_worker
         (fst (train_dataloaders (default_args\<lparr>bucketing_sampler := False\<rparr>) (1::nat) (Some ()) (sconst 100007))) 3
         \<lparr>installed_seed = Some 99\<rparr>)"
    by blast
  from first seven have "installed_seed (start_worker
        (fst (train_dataloaders default_args (0::nat) (None :: unit option) (sconst 7))) 3
        \<lparr>installed_seed = None\<rparr>) = Some 10"
    by simp
  with same second show ?thesis by blast
qed

subsection \<open>What the three constructors pass on\<close>

lemma train_dataloaders_dataset:
  "dl_dataset (fst (train_dataloaders a cuts sd g)) =
     \<lparr>ds_return_text = True, ds_return_tokens = True, ds_return_spk_ids = True,
      ds_feature_input_strategy = feature_input_strategy a,
      ds_return_cuts = return_cuts a, ds_return_audio = None\<rparr>"
  by (simp add: train_dataloaders_def Let_def split: prod.splits)

lemma train_dataloaders_sampler:
  "dl_sampler (fst (train_dataloaders a cuts sd g)) =
     \<lparr>ctor = (if bucketing_sampler a then
                DynamicBucketingSampler cuts
                  \<lparr>dbs_max_duration = max_duration a, dbs_shuffle = shuffle a,
                   dbs_num_buckets = Some (num_buckets a),
                   dbs_buffer_size = Some (num_buckets a * 2000),
                   dbs_shuffle_buffer_size = Some (num_buckets a * 5000),
                   dbs_drop_last = Some (drop_last a)\<rparr>
              else
                SimpleCutSampler cuts
                  \<lparr>scs_max_duration = max_duration a, scs_shuffle = shuffle a\<rparr>),
      loaded_state = sd\<rparr>"
  by (simp add: train_dataloaders_def Let_def new_sampler_def load_state_dict_def
      split: prod.splits option.splits)

lemma train_dataloaders_workers:
  "dl_num_workers (fst (train_dataloaders a cuts sd g)) = num_workers a"
  "dl_persistent_workers (fst (train_dataloaders a cuts sd g)) = Some False"
  "dl_batch_size (fst (train_dataloaders a cuts sd g)) = None"
  by (simp_all add: train_dataloaders_def Let_def split: prod.splits)

lemma train_dataloaders_generator:
  "snd (train_dataloaders a cuts sd g) = stl g"
  by (simp add: train_dataloaders_def Let_def torch_randint_def split: prod.splits)

text \<open>
  Claim C3. With the bucketing flag on, the training sampler is a dynamic bucketing sampler
  given the configured maximum duration, shuffle flag, bucket count and drop-last flag, a
  read-ahead buffer of 2000 times the bucket count and a shuffle buffer of 5000 times the
  bucket count; with the flag off it is a simple sampler given the maximum duration and the
  shuffle flag only.
\<close>

theorem train_sampler_construction:
  "ctor (dl_sampler (fst (train_dataloaders a cuts sd g))) =
     (if bucketing_sampler a then
        DynamicBucketingSampler cuts
          \<lparr>dbs_max_duration = max_duration a, dbs_shuffle = shuffle a,
           dbs_num_buckets = Some (num_buckets a),
           dbs_buffer_size = Some (2000 * num_buckets a),
           dbs_shuffle_buffer_size = Some (5000 * num_buckets a),
           dbs_drop_last = Some (drop_last a)\<rparr>
      else
        SimpleCutSampler cuts \<lparr>scs_max_duration = max_duration a, scs_shuffle = shuffle a\<rparr>)"
  by (simp add: train_dataloaders_sampler mult.commute)

text \<open>
  Claim C7. The sampler of the training loader holds exactly the state that was supplied:
  a supplied state is loaded whichever sampler kind the bucketing flag selected and
  whatever the state is, no state is loaded when none is supplied, and the supplied state
  has no influence on which sampler is built.
\<close>

theorem sampler_state_is_loaded_unchecked:
  "loaded_state (dl_sampler (fst (train_dataloaders a cuts (Some st) g))) = Some st
   \<and> loaded_state (dl_sampler (fst (train_dataloaders a cuts None g))) = (None :: 'sd option)
   \<and> ctor (dl_sampler (fst (train_dataloaders a cuts (Some st) g)))
     = ctor (dl_sampler (fst (train_dataloaders a cuts (None :: 'sd option) g)))"
  by (simp add: train_dataloaders_sampler)

text \<open>
  An instance: with the bucketing flag off, a state tagged as saved by a bucketing sampler
  is loaded into the simple sampler all the same.
\<close>

lemma mismatched_state_is_loaded:
  "dl_sampler (fst (train_dataloaders (default_args\<lparr>bucketing_sampler := False\<rparr>) cuts
       (Some (''DynamicBucketingSampler'', st)) g))
   = \<lparr>ctor = SimpleCutSampler cuts \<lparr>scs_max_duration = PyFloat 200, scs_shuffle = True\<rparr>,
      loaded_state = Some (''DynamicBucketingSampler'', st)\<rparr>"
  by (simp add: train_dataloaders_sampler default_args_def)

text \<open>
  Claim C10. The base seed drawn at the construction of a training loader lies in
  \<open>[0, 100000)\<close>, and the seed installed in the worker with id \<open>W\<close> lies in
  \<open>[W, 100000 + W)\<close>.
\<close>

theorem base_seed_range:
  "0 \<le> base_seed g \<and> base_seed g < 100000
   \<and> (\<exists>s. installed_seed (start_worker (fst (train_dataloaders a cuts sd g)) W w) = Some s
          \<and> W \<le> s \<and> s < 100000 + W)"
proof -
  have "shd g mod 100000 < 100000" by simp
  then have r: "0 \<le> base_seed g \<and> base_seed g < 100000"
    by (simp add: base_seed_def torch_randint_def)
  have "installed_seed (start_worker (fst (train_dataloaders a cuts sd g)) W w)
        = Some (base_seed g + W)"
    by (simp add: start_worker_def train_dataloaders_worker_init_fn seed_workers_call_def
        fix_random_seed_def)
  with r show ?thesis by simp
qed


lemma dev_dataloaders_sampler:
  "dl_sampler (dev_dataloaders a cuts :: ('c, 'sd) data_loader) =
     \<lparr>ctor = DynamicBucketingSampler cuts
               \<lparr>dbs_max_duration = max_duration a, dbs_shuffle = False,
                dbs_num_buckets = None, dbs_buffer_size = None,
                dbs_shuffle_buffer_size = None, dbs_drop_last = None\<rparr>,
      loaded_state = None\<rparr>"
  by (simp add: dev_dataloaders_def Let_def new_sampler_def)

lemma test_dataloaders_sampler:
  "dl_sampler (test_dataloaders a cuts :: ('c, 'sd) data_loader) =
     \<lparr>ctor = DynamicBucketingSampler cuts
               \<lparr>dbs_max_duration = max_duration a, dbs_shuffle = False,
                dbs_num_buckets = None, dbs_buffer_size = None,
                dbs_shuffle_buffer_size = None, dbs_drop_last = None\<rparr>,
      loaded_state = None\<rparr>"
  by (simp add: test_dataloaders_def Let_def new_sampler_def)

lemma dev_dataloaders_flags:
  "(dev_dataloaders (a\<lparr>bucketing_sampler := b, shuffle := s, drop_last := d\<rparr>) cuts
      :: ('c, 'sd) data_loader) = dev_dataloaders a cuts"
  by (simp add: dev_dataloaders_def feature_input_strategy_def)

lemma test_dataloaders_flags:
  "(test_dataloaders (a\<lparr>bucketing_sampler := b, shuffle := s, drop_last := d\<rparr>) cuts
      :: ('c, 'sd) data_loader) = test_dataloaders a cuts"
  by (simp add: test_dataloaders_def feature_input_strategy_def)

text \<open>
  The samplers of the dev and the test loader: a dynamic bucketing sampler over the given
  cuts with shuffling off, drop-last off and no state loaded, whatever the bucketing,
  shuffle and drop-last flags of the configuration are. Neither constructor reads the
  random generator. The order in which the library's sampler then emits its batches is
  not part of this development.
\<close>

lemma dev_test_sampler_wiring:
  fixes a :: args and cuts :: 'c and b s d :: bool
  defines "a' \<equiv> a\<lparr>bucketing_sampler := b, shuffle := s, drop_last := d\<rparr>"
  defines "dev \<equiv> dl_sampler (dev_dataloaders a' cuts :: ('c, 'sd) data_loader)"
  defines "test \<equiv> dl_sampler (test_dataloaders a' cuts :: ('c, 'sd) data_loader)"
  shows "(\<exists>kw. ctor dev = DynamicBucketingSampler cuts kw)
     \<and> (\<exists>kw. ctor test = DynamicBucketingSampler cuts kw)
     \<and> sampler_shuffles dev = Some False \<and> sampler_drops_last dev = Some False
     \<and> sampler_shuffles test = Some False \<and> sampler_drops_last test = Some False
     \<and> dev = dl_sampler (dev_dataloaders a cuts)
     \<and> test = dl_sampler (test_dataloaders a cuts)"
proof -
  have dev_eq: "dev = dl_sampler (dev_dataloaders a cuts)"
    unfolding dev_def a'_def by (simp only: dev_dataloaders_flags)
  have test_eq: "test = dl_sampler (test_dataloaders a cuts)"
    unfolding test_def a'_def by (simp only: test_dataloaders_flags)
  have dev_ctor: "\<exists>kw. ctor dev = DynamicBucketingSampler cuts kw"
    by (simp add: dev_eq dev_dataloaders_sampler)
  have test_ctor: "\<exists>kw. ctor test = DynamicBucketingSampler cuts kw"
    by (simp add: test_eq test_dataloaders_sampler)
  have dev_off: "sampler_shuffles dev = Some False \<and> sampler_drops_last dev = Some False"
    by (simp add: dev_eq dev_dataloaders_sampler sampler_shuffles_def sampler_drops_last_def)
  have test_off: "sampler_shuffles test = Some False \<and> sampler_drops_last test = Some False"
    by (simp add: test_eq test_dataloaders_sampler sampler_shuffles_def sampler_drops_last_def)
  from dev_eq test_eq dev_ctor test_ctor dev_off test_off show ?thesis
    by blast
qed

lemma dev_dataloaders_dataset:
  "dl_dataset (dev_dataloaders a cuts) =
     \<lparr>ds_return_text = True, ds_return_tokens = True, ds_return_spk_ids = True,
      ds_feature_input_strategy = feature_input_strategy a,
      ds_return_cuts = return_cuts a, ds_return_audio = None\<rparr>"
  by (simp add: dev_dataloaders_def Let_def)

lemma test_dataloaders_dataset:
  "dl_dataset (test_dataloaders a cuts) =
     \<lparr>ds_return_text = True, ds_return_tokens = True, ds_return_spk_ids = True,
      ds_feature_input_strategy = feature_input_strategy a,
      ds_return_cuts = return_cuts a, ds_return_audio = Some True\<rparr>"
  by (simp add: test_dataloaders_def Let_def)

text \<open>
  Claim C6. The test dataset requests raw audio and the train and dev datasets do not;
  each of the three requests text, tokens and speaker identifiers, and requests the cuts
  exactly when the return-cuts flag of the configuration is set.
\<close>

theorem dataset_requests:
  fixes a :: args and cuts cuts2 cuts3 :: 'c and sd :: "'sd option" and g :: generator
  defines "train \<equiv> dl_dataset (fst (train_dataloaders a cuts sd g))"
  defines "dev \<equiv> dl_dataset (dev_dataloaders a cuts2 :: ('c, 'sd) data_loader)"
  defines "test \<equiv> dl_dataset (test_dataloaders a cuts3 :: ('c, 'sd) data_loader)"
  shows "requests_audio test \<and> \<not> requests_audio train \<and> \<not> requests_audio dev
     \<and> ds_return_text train \<and> ds_return_tokens train \<and> ds_return_spk_ids train
     \<and> ds_return_text dev \<and> ds_return_tokens dev \<and> ds_return_spk_ids dev
     \<and> ds_return_text test \<and> ds_return_tokens test \<and> ds_return_spk_ids test
     \<and> ds_return_cuts train = return_cuts a
     \<and> ds_return_cuts dev = return_cuts a
     \<and> ds_return_cuts test = return_cuts a"
  unfolding train_def dev_def test_def
  by (simp add: train_dataloaders_dataset dev_dataloaders_dataset test_dataloaders_dataset
      requests_audio_def)

text \<open>
  Claim C8. The train and the test loader run the configured number of workers, the dev
  loader runs two, and no loader keeps its workers alive between epochs.
\<close>

theorem loader_workers:
  fixes a :: args and cuts cuts2 cuts3 :: 'c and sd :: "'sd option" and g :: generator
  defines "train \<equiv> fst (train_dataloaders a cuts sd g)"
  defines "dev \<equiv> (dev_dataloaders a cuts2 :: ('c, 'sd) data_loader)"
  defines "test \<equiv> (test_dataloaders a cuts3 :: ('c, 'sd) data_loader)"
  shows "dl_num_workers train = num_workers a
     \<and> dl_num_workers test = num_workers a
     \<and> dl_num_workers dev = 2
     \<and> \<not> persistent_workers train \<and> \<not> persistent_workers dev \<and> \<not> persistent_workers test"
  unfolding train_def dev_def test_def
  by (simp add: train_dataloaders_workers persistent_workers_def dev_dataloaders_def
      test_dataloaders_def Let_def)


subsection \<open>The option registry\<close>

lemma add_arguments_declares:
  "add_arguments [] =
     [\<lparr>arg_flag = ''--manifest-dir'', arg_type = TPath, arg_default = PyPath [''data'', ''fbank'']\<rparr>,
      \<lparr>arg_flag = ''--max-duration'', arg_type = TInt, arg_default = PyFloat 200\<rparr>,
      \<lparr>arg_flag = ''--bucketing-sampler'', arg_type = TStr2bool, arg_default = PyBool True\<rparr>,
      \<lparr>arg_flag = ''--num-buckets'', arg_type = TInt, arg_default = PyInt 30\<rparr>,
      \<lparr>arg_flag = ''--on-the-fly-feats'', arg_type = TStr2bool, arg_default = PyBool False\<rparr>,
      \<lparr>arg_flag = ''--shuffle'', arg_type = TStr2bool, arg_default = PyBool True\<rparr>,
      \<lparr>arg_flag = ''--drop-last'', arg_type = TStr2bool, arg_default = PyBool True\<rparr>,
      \<lparr>arg_flag = ''--return-cuts'', arg_type = TStr2bool, arg_default = PyBool False\<rparr>,
      \<lparr>arg_flag = ''--num-workers'', arg_type = TInt, arg_default = PyInt 8\<rparr>,
      \<lparr>arg_flag = ''--input-strategy'', arg_type = TStr,
       arg_default = PyStr ''PrecomputedFeatures''\<rparr>]"
  by (simp add: add_arguments_def add_argument_def)

lemma parse_no_args_defaults:
  "parse_no_args conv (add_arguments []) =
     [(''manifest_dir'', PyPath [''data'', ''fbank'']),
      (''max_duration'', PyFloat 200),
      (''bucketing_sampler'', PyBool True),
      (''num_buckets'', PyInt 30),
      (''on_the_fly_feats'', PyBool False),
      (''shuffle'', PyBool True),
      (''drop_last'', PyBool True),
      (''return_cuts'', PyBool False),
      (''num_workers'', PyInt 8),
      (''input_strategy'', conv TStr ''PrecomputedFeatures'')]"
  by (simp add: add_arguments_declares parse_no_args_def stored_default_def dest_def)

text \<open>The configuration \<open>default_args\<close> holds these stored defaults.\<close>

lemma default_args_stored:
  "map_of (parse_no_args conv (add_arguments [])) ''manifest_dir'' = Some (PyPath (manifest_dir default_args))"
  "map_of (parse_no_args conv (add_arguments [])) ''max_duration'' = Some (max_duration default_args)"
  "map_of (parse_no_args conv (add_arguments [])) ''bucketing_sampler'' = Some (PyBool (bucketing_sampler default_args))"
  "map_of (parse_no_args conv (add_arguments [])) ''num_buckets'' = Some (PyInt (num_buckets default_args))"
  "map_of (parse_no_args conv (add_arguments [])) ''on_the_fly_feats'' = Some (PyBool (on_the_fly_feats default_args))"
  "map_of (parse_no_args conv (add_arguments [])) ''shuffle'' = Some (PyBool (shuffle default_args))"
  "map_of (parse_no_args conv (add_arguments [])) ''drop_last'' = Some (PyBool (drop_last default_args))"
  "map_of (parse_no_args conv (add_arguments [])) ''return_cuts'' = Some (PyBool (return_cuts default_args))"
  "map_of (parse_no_args conv (add_arguments [])) ''num_workers'' = Some (PyInt (num_workers default_args))"
  by (simp_all add: parse_no_args_defaults default_args_def)

text \<open>
  Claim C9. The registry declares \<open>--max-duration\<close> with the type callable \<open>int\<close> and
  the default \<open>200.0\<close>. The default is not a string, so it is stored unconverted: with the
  option absent from the command line, the configuration holds the float \<open>200.0\<close> and
  not the integer \<open>200\<close>, whatever the conversion of strings does.
\<close>

theorem max_duration_default_is_float:
  "map_of (map (\<lambda>a. (arg_flag a, (arg_type a, arg_default a))) (add_arguments []))
       ''--max-duration'' = Some (TInt, PyFloat 200)
   \<and> map_of (parse_no_args conv (add_arguments [])) ''max_duration'' = Some (PyFloat 200)
   \<and> map_of (parse_no_args conv (add_arguments [])) ''max_duration'' \<noteq> Some (PyInt 200)"
  by (simp add: add_arguments_declares parse_no_args_def stored_default_def dest_def)


subsection \<open>The accessor caches\<close>


lemma cached_call_hit:
  assumes "map_of (caches p (qualname c)) (key_of self c) = Some r"
  shows "cached_call d self c p =
     (Inr r, p\<lparr>caches := (caches p)(qualname c :=
          (key_of self c, r) # filter (\<lambda>e. fst e \<noteq> key_of self c) (caches p (qualname c)))\<rparr>)"
  using assms by (simp add: cached_call_def Let_def)

lemma cached_call_miss:
  assumes "map_of (caches p (qualname c)) (key_of self c) = None"
  shows "cached_call d self c p =
     (case d (length (loaded p)) (manifest (self_args self) c) of
        Raises \<Rightarrow> (Inl LoadError, p\<lparr>loaded := loaded p @ [manifest (self_args self) c]\<rparr>)
      | Empty \<Rightarrow>
          (Inr PyNone,
           p\<lparr>loaded := loaded p @ [manifest (self_args self) c],
             caches := (caches p)(qualname c :=
               (key_of self c, PyNone)
               # (if length (caches p (qualname c)) \<ge> maxsize then butlast (caches p (qualname c))
                  else caches p (qualname c)))\<rparr>)
      | Manifest \<Rightarrow>
          (Inr (CutSet (next_id p) (manifest (self_args self) c)),
           p\<lparr>next_id := Suc (next_id p), loaded := loaded p @ [manifest (self_args self) c],
             caches := (caches p)(qualname c :=
               (key_of self c, CutSet (next_id p) (manifest (self_args self) c))
               # (if length (caches p (qualname c)) \<ge> maxsize then butlast (caches p (qualname c))
                  else caches p (qualname c)))\<rparr>))"
  using assms by (simp add: cached_call_def Let_def load_manifest_lazy_def split: outcome.splits)

text \<open>The three ways a call can go: a hit, a body that raises, a body whose result is stored.\<close>

lemma cached_call_cases [case_names hit raised stored]:
  obtains (hit) r where "map_of (caches p (qualname c)) (key_of self c) = Some r"
      and "fst (cached_call d self c p) = Inr r"
      and "caches (snd (cached_call d self c p)) = (caches p)(qualname c :=
             (key_of self c, r) # filter (\<lambda>e. fst e \<noteq> key_of self c) (caches p (qualname c)))"
      and "next_id (snd (cached_call d self c p)) = next_id p"
      and "loaded (snd (cached_call d self c p)) = loaded p"
  | (raised) "map_of (caches p (qualname c)) (key_of self c) = None"
      and "fst (cached_call d self c p) = Inl LoadError"
      and "caches (snd (cached_call d self c p)) = caches p"
      and "next_id (snd (cached_call d self c p)) = next_id p"
  | (stored) v where "map_of (caches p (qualname c)) (key_of self c) = None"
      and "fst (cached_call d self c p) = Inr v"
      and "caches (snd (cached_call d self c p)) = (caches p)(qualname c :=
             (key_of self c, v)
             # (if length (caches p (qualname c)) \<ge> maxsize then butlast (caches p (qualname c))
                else caches p (qualname c)))"
      and "next_id p \<le> next_id (snd (cached_call d self c p))"
      and "\<And>i m. v = CutSet i m \<Longrightarrow> i = next_id p \<and> next_id (snd (cached_call d self c p)) = Suc (next_id p)"
proof (cases "map_of (caches p (qualname c)) (key_of self c)")
  case (Some r)
  show ?thesis
    by (rule hit [OF Some]) (simp_all add: cached_call_hit [OF Some])
next
  case None
  show ?thesis
  proof (cases "d (length (loaded p)) (manifest (self_args self) c)")
    case Raises
    show ?thesis
      by (rule raised [OF None]) (simp_all add: cached_call_miss [OF None] Raises)
  next
    case Empty
    show ?thesis
      by (rule stored [OF None, of PyNone]) (simp_all add: cached_call_miss [OF None] Empty)
  next
    case Manifest
    show ?thesis
      by (rule stored [OF None, of "CutSet (next_id p) (manifest (self_args self) c)"])
        (simp_all add: cached_call_miss [OF None] Manifest)
  qed
qed

lemma run_snd_Cons:
  "snd (run d ((self, c) # rest) p) = snd (run d rest (snd (cached_call d self c p)))"
  by (simp add: Let_def split: prod.splits)












subsection \<open>Identities\<close>

lemma result_of_call:
  assumes "fst (cached_call d self c p) = Inr (CutSet i m)"
  shows "(key_of self c, CutSet i m) \<in> set (caches p (qualname c)) \<or> i = next_id p"
proof (cases rule: cached_call_cases [where p = p and c = c and self = self and d = d])
  case (hit r)
  from hit(1) have "(key_of self c, r) \<in> set (caches p (qualname c))"
    by (rule map_of_SomeD)
  with hit(2) assms show ?thesis by simp
next
  case raised
  with assms show ?thesis by simp
next
  case (stored v)
  from stored(2) assms have "v = CutSet i m" by simp
  from stored(5) [OF this] show ?thesis by simp
qed

lemma result_cached:
  assumes "fst (cached_call d self c p) = Inr v"
  shows "(key_of self c, v) \<in> set (caches (snd (cached_call d self c p)) (qualname c))"
  using assms by (cases rule: cached_call_cases [where p = p and c = c and self = self and d = d]) simp_all

lemma next_id_call: "next_id p \<le> next_id (snd (cached_call d self c p))"
  by (cases rule: cached_call_cases [where p = p and c = c and self = self and d = d]) simp_all

lemma new_entry_after_call:
  assumes "(k, CutSet i m) \<in> set (caches (snd (cached_call d self c p)) f)"
    and "(k, CutSet i m) \<notin> set (caches p f)"
  shows "f = qualname c \<and> k = key_of self c \<and> i = next_id p
     \<and> next_id (snd (cached_call d self c p)) = Suc (next_id p)"
proof (cases rule: cached_call_cases [where p = p and c = c and self = self and d = d])
  case (hit r)
  from hit(1) have "(key_of self c, r) \<in> set (caches p (qualname c))"
    by (rule map_of_SomeD)
  with assms hit(3) show ?thesis by (auto split: if_splits)
next
  case raised
  with assms show ?thesis by simp
next
  case (stored v)
  have "set (butlast (caches p (qualname c))) \<subseteq> set (caches p (qualname c))"
    by (auto dest: in_set_butlastD)
  with assms stored(3) have "f = qualname c \<and> k = key_of self c \<and> v = CutSet i m"
    by (auto split: if_splits)
  with stored(5) [of i m] show ?thesis by simp
qed

lemma ids_fresh_start: "ids_fresh start"
  by (simp add: ids_fresh_def start_def)

lemma ids_fresh_call:
  assumes "ids_fresh p"
  shows "ids_fresh (snd (cached_call d self c p))"
proof -
  let ?q = "snd (cached_call d self c p)"
  from assms have below: "\<And>f k i m. (k, CutSet i m) \<in> set (caches p f) \<Longrightarrow> i < next_id p"
    and uniq: "\<And>f k i m f' k' m'. (k, CutSet i m) \<in> set (caches p f)
          \<Longrightarrow> (k', CutSet i m') \<in> set (caches p f') \<Longrightarrow> f = f' \<and> k = k'"
    unfolding ids_fresh_def by blast+
  have b: "i < next_id ?q" if "(k, CutSet i m) \<in> set (caches ?q f)" for f k i m
  proof (cases "(k, CutSet i m) \<in> set (caches p f)")
    case True
    from below [OF True] next_id_call [of p d self c] show ?thesis by linarith
  next
    case False
    from new_entry_after_call [OF that False] show ?thesis by simp
  qed
  have u: "f = f' \<and> k = k'"
    if e: "(k, CutSet i m) \<in> set (caches ?q f)" and e': "(k', CutSet i m') \<in> set (caches ?q f')"
    for f k i m f' k' m'
  proof (cases "(k, CutSet i m) \<in> set (caches p f)")
    case old: True
    show ?thesis
    proof (cases "(k', CutSet i m') \<in> set (caches p f')")
      case True
      from uniq [OF old True] show ?thesis .
    next
      case False
      from new_entry_after_call [OF e' False] below [OF old] show ?thesis by simp
    qed
  next
    case new: False
    show ?thesis
    proof (cases "(k', CutSet i m') \<in> set (caches p f')")
      case True
      from new_entry_after_call [OF e new] below [OF True] show ?thesis by simp
    next
      case False
      from new_entry_after_call [OF e new] new_entry_after_call [OF e' False] show ?thesis by simp
    qed
  qed
  show ?thesis unfolding ids_fresh_def using b u by blast
qed

lemma ids_fresh_run: "ids_fresh p \<Longrightarrow> ids_fresh (snd (run d calls p))"
proof (induction calls arbitrary: p)
  case Nil
  then show ?case by simp
next
  case (Cons sc calls)
  obtain s c where sc: "sc = (s, c)" by (cases sc)
  from Cons.IH [OF ids_fresh_call [OF Cons.prems, of d s c]]
  show ?case by (simp add: sc run_snd_Cons del: run.simps)
qed

lemma owned_call:
  assumes "owned f k i p"
  shows "owned f k i (snd (cached_call d self c p))"
proof -
  let ?q = "snd (cached_call d self c p)"
  from assms have lt: "i < next_id p"
    and own: "\<And>f' k' m'. (k', CutSet i m') \<in> set (caches p f') \<Longrightarrow> f' = f \<and> k' = k"
    unfolding owned_def by blast+
  have "f' = f \<and> k' = k" if e: "(k', CutSet i m') \<in> set (caches ?q f')" for f' k' m'
  proof (cases "(k', CutSet i m') \<in> set (caches p f')")
    case True
    from own [OF True] show ?thesis .
  next
    case False
    from new_entry_after_call [OF e False] lt show ?thesis by simp
  qed
  moreover have "i < next_id ?q" using lt next_id_call [of p d self c] by linarith
  ultimately show ?thesis unfolding owned_def by blast
qed

lemma owned_run: "owned f k i p \<Longrightarrow> owned f k i (snd (run d calls p))"
proof (induction calls arbitrary: p)
  case Nil
  then show ?case by simp
next
  case (Cons sc calls)
  obtain s c where sc: "sc = (s, c)" by (cases sc)
  from Cons.IH [OF owned_call [OF Cons.prems, of d s c]]
  show ?case by (simp add: sc run_snd_Cons del: run.simps)
qed

lemma owned_after_call:
  assumes "ids_fresh p" and ret: "fst (cached_call d self c p) = Inr (CutSet i m)"
  shows "owned (qualname c) (key_of self c) i (snd (cached_call d self c p))"
proof -
  let ?q = "snd (cached_call d self c p)"
  have fresh: "ids_fresh ?q" by (rule ids_fresh_call [OF assms(1)])
  have mem: "(key_of self c, CutSet i m) \<in> set (caches ?q (qualname c))"
    by (rule result_cached [OF ret])
  from fresh mem have "i < next_id ?q"
    unfolding ids_fresh_def by blast
  moreover have "f' = qualname c \<and> k' = key_of self c"
    if "(k', CutSet i m') \<in> set (caches ?q f')" for f' k' m'
    using fresh mem that unfolding ids_fresh_def by blast
  ultimately show ?thesis unfolding owned_def by blast
qed

text \<open>
  Two calls that return collections and differ in accessor or key return different
  collections.
\<close>

lemma other_key_other_identity:
  assumes differ: "(qualname c', key_of self' c') \<noteq> (qualname c, key_of self c)"
    and ret: "fst (cached_call d self c (snd (run d history start))) = Inr (CutSet i m)"
    and ret': "fst (cached_call d self' c'
            (snd (run d between (snd (cached_call d self c (snd (run d history start)))))))
          = Inr (CutSet i' m')"
  shows "i' \<noteq> i"
proof -
  let ?p = "snd (run d history start)"
  let ?p2 = "snd (run d between (snd (cached_call d self c ?p)))"
  have "ids_fresh ?p" by (rule ids_fresh_run [OF ids_fresh_start])
  then have "owned (qualname c) (key_of self c) i (snd (cached_call d self c ?p))"
    using ret by (rule owned_after_call)
  then have "owned (qualname c) (key_of self c) i ?p2"
    by (rule owned_run)
  then have lt: "i < next_id ?p2"
    and own: "\<And>f' k' m'. (k', CutSet i m') \<in> set (caches ?p2 f')
          \<Longrightarrow> f' = qualname c \<and> k' = key_of self c"
    unfolding owned_def by blast+
  from result_of_call [OF ret'] show ?thesis
  proof
    assume mem: "(key_of self' c', CutSet i' m') \<in> set (caches ?p2 (qualname c'))"
    show ?thesis
    proof
      assume "i' = i"
      with mem have "(key_of self' c', CutSet i m') \<in> set (caches ?p2 (qualname c'))"
        by simp
      from own [OF this] differ show False by simp
    qed
  next
    assume "i' = next_id ?p2"
    with lt show ?thesis by simp
  qed
qed

subsection \<open>Filling a cache\<close>








subsection \<open>What else makes a repeated call open the manifest again, or two paths share an object\<close>

text \<open>The cache is keyed by the instance: two modules open the same manifest twice.\<close>

lemma two_instances_load_twice:
  "fst (run all_present
         [(example_module, train_custom_cuts Positional (PathStr ''a'')),
          (example_module\<lparr>self_id := 1\<rparr>, train_custom_cuts Positional (PathStr ''a''))] start)
     = [Inr (CutSet 0 (PathStr ''a'')), Inr (CutSet 1 (PathStr ''a''))]"
  by (simp add: cached_call_def start_def example_module_def key_of_def load_manifest_lazy_def
      maxsize_def all_present_def)

text \<open>A positional and a keyword call of one path have different keys.\<close>

lemma keyword_call_loads_again:
  "fst (run all_present
         [(example_module, train_custom_cuts Positional (PathStr ''a'')),
          (example_module, train_custom_cuts Keyword (PathStr ''a''))] start)
     = [Inr (CutSet 0 (PathStr ''a'')), Inr (CutSet 1 (PathStr ''a''))]"
  by (simp add: cached_call_def start_def example_module_def key_of_def load_manifest_lazy_def
      maxsize_def all_present_def)

text \<open>So have a str and a Path of one file.\<close>

lemma path_object_loads_again:
  "fst (run all_present
         [(example_module, train_custom_cuts Positional (PathStr ''a'')),
          (example_module, train_custom_cuts Positional (PathObj [''a'']))] start)
     = [Inr (CutSet 0 (PathStr ''a'')), Inr (CutSet 1 (PathObj [''a'']))]"
  by (simp add: cached_call_def start_def example_module_def key_of_def load_manifest_lazy_def
      maxsize_def all_present_def)

text \<open>An exception is not cached: the next call opens the manifest again.\<close>

lemma failed_load_is_retried:
  "run appears_later
     [(example_module, train_custom_cuts Positional (PathStr ''a'')),
      (example_module, train_custom_cuts Positional (PathStr ''a''))] start
   = ([Inl LoadError, Inr (CutSet 0 (PathStr ''a''))],
      \<lparr>next_id = 1, loaded = [PathStr ''a'', PathStr ''a''],
       caches = (\<lambda>f. [])(''train_custom_cuts'' := [((0, [PathStr ''a''], []), CutSet 0 (PathStr ''a''))])\<rparr>)"
  by (simp add: cached_call_def start_def example_module_def key_of_def load_manifest_lazy_def
      maxsize_def appears_later_def)

text \<open>Two empty manifests both give \<open>None\<close>: two paths, one object.\<close>

lemma empty_manifests_share_none:
  "map (map_sum id ident) (fst (run all_empty
         [(example_module, train_custom_cuts Positional (PathStr ''a'')),
          (example_module, train_custom_cuts Positional (PathStr ''b''))] start))
     = [Inr None, Inr None]"
  by (simp add: cached_call_def start_def example_module_def key_of_def load_manifest_lazy_def
      maxsize_def all_empty_def)

text \<open>
  An accessor without a parameter is keyed by the instance alone: after the manifest
  directory of the instance has changed, it still returns the collection of the old
  directory.
\<close>

lemma changed_manifest_dir_hits_cache:
  "fst (run all_present
         [(example_module, train_emilia_EN_cuts),
          (example_module\<lparr>self_args := default_args\<lparr>manifest_dir := [''other'']\<rparr>\<rparr>,
           train_emilia_EN_cuts)] start)
     = [Inr (CutSet 0 (PathObj [''data'', ''fbank'', ''emilia_cuts_EN.jsonl.gz''])),
        Inr (CutSet 0 (PathObj [''data'', ''fbank'', ''emilia_cuts_EN.jsonl.gz'']))]"
  by (simp add: cached_call_def start_def example_module_def key_of_def load_manifest_lazy_def
      maxsize_def all_present_def default_args_def path_join_def)

subsection \<open>What the caches do guarantee\<close>

lemma call_args_differ:
  "m \<noteq> m' \<Longrightarrow>
     call_args (train_custom_cuts form m) \<noteq> call_args (train_custom_cuts form' m')
   \<and> call_args (dev_custom_cuts form m) \<noteq> call_args (dev_custom_cuts form' m')"
  by (cases form; cases form') simp_all

text \<open>
  Calls of \<open>train_custom_cuts\<close> with different manifest arguments that both return a
  collection return different collections, whatever the instances, the call forms and the
  calls made in between.
\<close>

lemma different_manifest_other_identity:
  assumes "m \<noteq> m'"
    and "fst (cached_call d self (train_custom_cuts form m) (snd (run d history start)))
           = Inr (CutSet i x)"
    and "fst (cached_call d self' (train_custom_cuts form' m')
            (snd (run d between
              (snd (cached_call d self (train_custom_cuts form m) (snd (run d history start)))))))
           = Inr (CutSet i' x')"
  shows "i' \<noteq> i"
proof -
  from call_args_differ [OF assms(1), of form form']
  have "call_args (train_custom_cuts form m) \<noteq> call_args (train_custom_cuts form' m')"
    by (rule conjunct1)
  then have neq: "call_args (train_custom_cuts form' m') \<noteq> call_args (train_custom_cuts form m)"
    by (rule not_sym)
  have "key_of self' (train_custom_cuts form' m') \<noteq> key_of self (train_custom_cuts form m)"
  proof
    assume "key_of self' (train_custom_cuts form' m') = key_of self (train_custom_cuts form m)"
    then have "call_args (train_custom_cuts form' m') = call_args (train_custom_cuts form m)"
      by (simp only: key_of_def prod.inject)
    with neq show False by (rule notE)
  qed
  then have "(qualname (train_custom_cuts form' m'), key_of self' (train_custom_cuts form' m'))
      \<noteq> (qualname (train_custom_cuts form m), key_of self (train_custom_cuts form m))"
    by (simp only: prod.inject) blast
  from other_key_other_identity [OF this assms(2) assms(3)] show ?thesis .
qed



end
